theory Spec2Isabelle
  imports Main "HOL-Library.Word" "HOL-Library.AList"
begin

section \<open>Data model of the App component\<close>

text \<open>
  The repository is one React component, \<^verbatim>\<open>src/App.tsx\<close>. Its \<^verbatim>\<open>useState\<close> cells and
  \<^verbatim>\<open>useRef\<close> cells are the fields of one record; every handler of the component is a
  function from the record to the updated record. A handler runs to its end before the
  next event is looked at: the suspension points of the \<^verbatim>\<open>async\<close> handlers are not
  modelled.
\<close>

type_synonym bytes = "8 word list"

text \<open>The object \<^verbatim>\<open>{type: "file-meta", name, size}\<close>.\<close>

record file_meta =
  meta_name :: string
  meta_size :: nat

text \<open>
  A text frame, seen through the \<^verbatim>\<open>try\<close> block of \<^verbatim>\<open>handleDataChannelMessage\<close>:
  \<open>Json e\<close> is a string that \<^verbatim>\<open>JSON.parse\<close> accepts and whose \<^verbatim>\<open>type\<close> member can be
  read; \<open>Plain s\<close> is a string \<open>s\<close> on which the block throws. \<^verbatim>\<open>JSON.stringify\<close> of the
  two envelopes that the component sends is \<open>Json (Chat c)\<close> and \<open>Json (FileMeta m)\<close>.
\<close>

datatype envelope = Chat string | FileMeta file_meta | Other

datatype text_data = Json envelope | Plain string

datatype frame = Text text_data | Binary bytes

datatype ready_state = ChConnecting | ChOpen | ChClosing | ChClosed

text \<open>An \<^verbatim>\<open>RTCDataChannel\<close>: its \<^verbatim>\<open>readyState\<close> and the frames handed to \<^verbatim>\<open>send\<close>, oldest first.\<close>

record channel =
  readyState :: ready_state
  outbox :: "frame list"

datatype signaling = Stable | HaveLocalOffer | HaveRemoteOffer | SigClosed

record track =
  track_id :: string
  kind :: string

record stream =
  stream_id :: string
  tracks :: "track list"

text \<open>
  An \<^verbatim>\<open>RTCPeerConnection\<close>. The SDP text that the platform generates is opaque to the
  component: a local description is kept by its type only (\<open>True\<close> once an offer is set),
  a remote description by the text received.
\<close>

record peer_connection =
  signalingState :: signaling
  senders :: "track list"
  localOffer :: bool
  remoteDescription :: "string option"

datatype signal = OfferSig string "string option"

text \<open>The socket: \<^verbatim>\<open>socket.id\<close> (undefined until connected) and the messages emitted.\<close>

record sock =
  sock_id :: "string option"
  emitted :: "signal list"

record user =
  user_id :: string
  ip :: string

text \<open>
  The component state. \<open>peerConnections\<close> and \<open>dataChannels\<close> are the two \<^verbatim>\<open>Map\<close>s, in
  insertion order; a peer connection is an object, so the map holds its address in
  \<open>pcHeap\<close>, the list of every \<^verbatim>\<open>RTCPeerConnection\<close> constructed so far.
  \<open>downloadLinks\<close> lists the values \<^verbatim>\<open>setDownloadLink\<close> was called with, oldest first:
  the \<^verbatim>\<open>downloadLink\<close> cell is the last one (null while the list is empty); the URL of
  a blob stands for the blob's bytes. \<open>console\<close> and \<open>alerts\<close> are the lines written by
  \<^verbatim>\<open>console.log\<close>, \<^verbatim>\<open>console.error\<close> and \<^verbatim>\<open>alert\<close>.
\<close>

record state =
  status :: string
  messages :: "string list"
  messageInput :: string
  receivedFileMeta :: "file_meta option"
  receivedFileChunksRef :: "bytes list"
  downloadLinks :: "(string \<times> bytes) list"
  connectedUsers :: "user list"
  socket :: "sock option"
  peerConnections :: "(string \<times> nat) list"
  pcHeap :: "peer_connection list"
  localStream :: "stream option"
  dataChannels :: "(string \<times> channel) list"
  isSharing :: bool
  isSharingRef :: bool
  peersRef :: "string list"
  console :: "string list"
  alerts :: "string list"

section \<open>Template strings\<close>

text \<open>A number inside a template literal is written in decimal.\<close>

definition digit :: "nat \<Rightarrow> char" where
  "digit n = ''0123456789'' ! n"

fun decimal :: "nat \<Rightarrow> string" where
  "decimal n = (if n < 10 then [digit n] else decimal (n div 10) @ [digit (n mod 10)])"

declare decimal.simps [simp del]

section \<open>Data channel: receiving\<close>

text \<open>\<^verbatim>\<open>newChunks.reduce((acc, chunk) => acc + chunk.byteLength, 0)\<close>\<close>

definition totalReceived :: "bytes list \<Rightarrow> nat" where
  "totalReceived newChunks = foldl (\<lambda>acc chunk. acc + length chunk) 0 newChunks"

text \<open>
  \<^verbatim>\<open>handleDataChannelMessage\<close>. The function reads \<^verbatim>\<open>receivedFileMeta\<close>, a constant of
  the render that created the closure: that value is the first argument. It writes
  through \<^verbatim>\<open>setReceivedFileMeta\<close>, \<^verbatim>\<open>setMessages\<close>, \<^verbatim>\<open>setDownloadLink\<close> and the chunk
  ref, which are the fields of the state.
\<close>

fun handleDataChannelMessage :: "file_meta option \<Rightarrow> frame \<Rightarrow> state \<Rightarrow> state" where
  "handleDataChannelMessage seen (Text (Json (Chat content))) st =
     st\<lparr>messages := messages st @ [''Peer: '' @ content]\<rparr>"
| "handleDataChannelMessage seen (Text (Json (FileMeta parsed))) st =
     st\<lparr>receivedFileMeta := Some parsed,
        receivedFileChunksRef := [],
        messages := messages st @
          [''System: Receiving file '' @ meta_name parsed @ '' ('' @
           decimal (meta_size parsed) @ '' bytes)...'']\<rparr>"
| "handleDataChannelMessage seen (Text (Json Other)) st = st"
| "handleDataChannelMessage seen (Text (Plain data)) st =
     st\<lparr>messages := messages st @ [''Peer: '' @ data]\<rparr>"
| "handleDataChannelMessage seen (Binary data) st =
     (case seen of
        None \<Rightarrow> st
      | Some meta \<Rightarrow>
          (let newChunks = receivedFileChunksRef st @ [data];
               st1 = st\<lparr>receivedFileChunksRef := newChunks\<rparr>
           in if meta_size meta \<le> totalReceived newChunks
              then st1\<lparr>downloadLinks := downloadLinks st1 @ [(meta_name meta, concat newChunks)],
                       messages := messages st1 @
                         [''System: File '' @ meta_name meta @ '' received.'']\<rparr>
              else st1))"

text \<open>
  The frames that arrive on one channel, in arrival order. \<^verbatim>\<open>dc.onmessage\<close> and
  \<^verbatim>\<open>receiveChannel.onmessage\<close> are assigned once, when the channel is created or
  announced, and keep the \<^verbatim>\<open>handleDataChannelMessage\<close> of the render that their caller
  belongs to: every frame on the channel meets the same closure, whose
  \<^verbatim>\<open>receivedFileMeta\<close> is the value the cell had in that render. On a component that has
  received no file-meta message it is null; a channel created by \<^verbatim>\<open>startCall\<close> from the
  share button after a file-meta message holds the metadata of that message.
\<close>

definition deliver :: "file_meta option \<Rightarrow> frame list \<Rightarrow> state \<Rightarrow> state" where
  "deliver closure evs st = foldl (\<lambda>acc ev. handleDataChannelMessage closure ev acc) st evs"

section \<open>Peer connections\<close>

definition log :: "string \<Rightarrow> state \<Rightarrow> state" where
  "log line st = st\<lparr>console := console st @ [line]\<rparr>"

text \<open>\<^verbatim>\<open>new RTCPeerConnection({iceServers: ...})\<close>\<close>

definition new_RTCPeerConnection :: peer_connection where
  "new_RTCPeerConnection =
     \<lparr>signalingState = Stable, senders = [], localOffer = False, remoteDescription = None\<rparr>"

text \<open>
  \<^verbatim>\<open>createPeerConnection\<close> returns the connection object, here its address. The callbacks
  it installs on a new object run on platform events, not inside this call.
\<close>

definition createPeerConnection :: "string \<Rightarrow> state \<Rightarrow> nat \<times> state" where
  "createPeerConnection targetUserId st =
     (case map_of (peerConnections st) targetUserId of
        Some existingPc \<Rightarrow>
          (existingPc, log (''Reusing existing peer connection for '' @ targetUserId) st)
      | None \<Rightarrow>
          (let st1 = log (''Creating new peer connection for '' @ targetUserId) st;
               pc = length (pcHeap st1)
           in (pc, st1\<lparr>pcHeap := pcHeap st1 @ [new_RTCPeerConnection],
                      peerConnections := AList.update targetUserId pc (peerConnections st1)\<rparr>)))"

text \<open>Successive connection requests; the objects returned, in call order.\<close>

fun requests :: "string list \<Rightarrow> state \<Rightarrow> nat list \<times> state" where
  "requests [] st = ([], st)"
| "requests (targetUserId # rest) st =
     (let (pc, st1) = createPeerConnection targetUserId st;
          (pcs, st2) = requests rest st1
      in (pc # pcs, st2))"

text \<open>
  The platform operations used by \<^verbatim>\<open>startCall\<close> and \<^verbatim>\<open>handleReceiveAnswer\<close>; \<open>None\<close> is
  a throw (a rejected promise). \<^verbatim>\<open>addTrack\<close> throws on a closed connection and on a
  track that already has a sender; an offer can be created and set in \<^verbatim>\<open>stable\<close> and
  \<^verbatim>\<open>have-local-offer\<close>; an answer can be applied as remote description in
  \<^verbatim>\<open>have-local-offer\<close> only. The SDP is taken to be well formed.
\<close>

definition addTrack :: "track \<Rightarrow> peer_connection \<Rightarrow> peer_connection option" where
  "addTrack t pc =
     (if signalingState pc = SigClosed \<or> t \<in> set (senders pc) then None
      else Some (pc\<lparr>senders := senders pc @ [t]\<rparr>))"

definition createDataChannel :: "peer_connection \<Rightarrow> channel option" where
  "createDataChannel pc =
     (if signalingState pc = SigClosed then None
      else Some \<lparr>readyState = ChConnecting, outbox = []\<rparr>)"

definition createOffer_setLocalDescription :: "peer_connection \<Rightarrow> peer_connection option" where
  "createOffer_setLocalDescription pc =
     (if signalingState pc = Stable \<or> signalingState pc = HaveLocalOffer
      then Some (pc\<lparr>signalingState := HaveLocalOffer, localOffer := True\<rparr>)
      else None)"

definition setRemoteDescription :: "string \<Rightarrow> peer_connection \<Rightarrow> peer_connection option" where
  "setRemoteDescription sdp_text pc =
     (if signalingState pc = HaveLocalOffer
      then Some (pc\<lparr>signalingState := Stable, remoteDescription := Some sdp_text\<rparr>)
      else None)"

text \<open>
  \<^verbatim>\<open>localStream.current.getTracks().forEach(...)\<close> of \<^verbatim>\<open>startCall\<close>: \<open>Inl\<close> is the state in
  which \<^verbatim>\<open>addTrack\<close> threw, \<open>Inr\<close> the state after the last track.
\<close>

fun addTracks :: "track list \<Rightarrow> nat \<Rightarrow> state \<Rightarrow> state + state" where
  "addTracks [] pc st = Inr st"
| "addTracks (t # ts) pc st =
     (let st1 = log (''Adding track '' @ kind t @ '' to peer connection'') st
      in case addTrack t (pcHeap st1 ! pc) of
           None \<Rightarrow> Inl st1
         | Some pc' \<Rightarrow> addTracks ts pc (st1\<lparr>pcHeap := (pcHeap st1)[pc := pc']\<rparr>))"

text \<open>\<^verbatim>\<open>socket?.emit("offer", {target, callerId: socket.id, sdp})\<close>\<close>

definition emit_offer :: "string \<Rightarrow> state \<Rightarrow> state" where
  "emit_offer target st =
     (case socket st of
        None \<Rightarrow> st
      | Some s \<Rightarrow> st\<lparr>socket := Some (s\<lparr>emitted := emitted s @ [OfferSig target (sock_id s)]\<rparr>)\<rparr>)"

text \<open>
  \<^verbatim>\<open>startCall\<close>. Nobody awaits or catches its promise: where a platform operation
  throws, the call ends there and what it did before stays. The handlers it installs
  on the new channel run on later events.
\<close>

definition startCall :: "string \<Rightarrow> state \<Rightarrow> state" where
  "startCall targetUserId st =
     (case localStream st of
        None \<Rightarrow> log ''No local stream to share'' st
      | Some ls \<Rightarrow>
          (let st1 = log (''Starting call to '' @ targetUserId) st;
               (pc, st2) = createPeerConnection targetUserId st1
           in case addTracks (tracks ls) pc st2 of
                Inl st3 \<Rightarrow> st3
              | Inr st3 \<Rightarrow>
                  (case createDataChannel (pcHeap st3 ! pc) of
                     None \<Rightarrow> st3
                   | Some dc \<Rightarrow>
                       (let st4 = st3\<lparr>dataChannels :=
                                        AList.update targetUserId dc (dataChannels st3)\<rparr>
                        in case createOffer_setLocalDescription (pcHeap st4 ! pc) of
                             None \<Rightarrow> st4
                           | Some pc' \<Rightarrow>
                               emit_offer targetUserId
                                 (log (''Sending offer to '' @ targetUserId)
                                    (st4\<lparr>pcHeap := (pcHeap st4)[pc := pc']\<rparr>))))))"

text \<open>The targets of the calls made so far, read off the console.\<close>

definition calls :: "state \<Rightarrow> string list" where
  "calls st = map (drop 17) (filter (\<lambda>line. take 17 line = ''Starting call to '') (console st))"

text \<open>
  What the session controller's calls depend on and what they leave behind for the
  next call: the calls made, the local stream, the sharing flag and the peer list.
\<close>

definition control :: "state \<Rightarrow> string list \<times> stream option \<times> bool \<times> string list" where
  "control st = (calls st, localStream st, isSharingRef st, peersRef st)"

section \<open>Session controller\<close>

definition handleUserConnected :: "string \<Rightarrow> state \<Rightarrow> state" where
  "handleUserConnected userId st =
     (let st1 = st\<lparr>status := ''User connected: '' @ userId\<rparr>;
          st2 = (if userId \<notin> set (peersRef st1)
                 then st1\<lparr>peersRef := peersRef st1 @ [userId]\<rparr> else st1)
      in if isSharingRef st2 then startCall userId st2 else st2)"

definition handleUpdateUserList :: "user list \<Rightarrow> state \<Rightarrow> state" where
  "handleUpdateUserList users st =
     (let st1 = st\<lparr>connectedUsers := users\<rparr>
      in case socket st1 of
           None \<Rightarrow> st1
         | Some s \<Rightarrow>
             st1\<lparr>peersRef := map user_id (filter (\<lambda>u. Some (user_id u) \<noteq> sock_id s) users)\<rparr>)"

text \<open>
  The outcome of \<^verbatim>\<open>navigator.mediaDevices.getDisplayMedia\<close>: a stream, or an error with
  its \<^verbatim>\<open>name\<close> and \<^verbatim>\<open>message\<close>.
\<close>

datatype media = Acquired stream | Failed string string

text \<open>
  \<^verbatim>\<open>startScreenShare\<close>. The calls of the \<^verbatim>\<open>forEach\<close> are taken one after the other, each
  to its end.
\<close>

definition startScreenShare :: "media \<Rightarrow> state \<Rightarrow> state" where
  "startScreenShare result st =
     (if isSharingRef st then st
      else
        (let st1 = (log ''Requesting display media...'' st)
                     \<lparr>status := ''Requesting screen access...''\<rparr>
         in case result of
              Failed err_name err_message \<Rightarrow>
                (log (''Error starting screen share: '' @ err_name @ '': '' @ err_message) st1)
                  \<lparr>status := ''Screen sharing failed: '' @ err_name @ '' - '' @ err_message,
                   alerts := alerts st1 @
                     [''Error sharing screen: '' @ err_name @ '' - '' @ err_message]\<rparr>
            | Acquired s \<Rightarrow>
                (let st2 = (log (''Display media acquired: '' @ stream_id s) st1)
                             \<lparr>localStream := Some s, isSharingRef := True, isSharing := True\<rparr>;
                     peersToCall = peersRef st2;
                     st3 = st2\<lparr>status :=
                             (if 0 < length peersToCall
                              then ''Screen sharing started. Calling '' @
                                   decimal (length peersToCall) @ '' peers...''
                              else ''Screen sharing started. Waiting for peers to join...'')\<rparr>
                 in foldl (\<lambda>acc userId. startCall userId acc) st3 peersToCall)))"

section \<open>Answers\<close>

text \<open>The payload of an \<^verbatim>\<open>answer\<close> event; the relay's message has no \<^verbatim>\<open>callerId\<close> member.\<close>

record answer_payload =
  callerId :: "string option"
  sdp :: string

text \<open>The \<^verbatim>\<open>for ... of peerConnections.current.entries()\<close> loop of the fallback.\<close>

fun answerFallback :: "(string \<times> nat) list \<Rightarrow> string \<Rightarrow> state \<Rightarrow> state" where
  "answerFallback [] sdp_text st = st"
| "answerFallback ((userId, conn) # rest) sdp_text st =
     (if signalingState (pcHeap st ! conn) = HaveLocalOffer
      then (case setRemoteDescription sdp_text (pcHeap st ! conn) of
              None \<Rightarrow> st
            | Some conn' \<Rightarrow>
                log (''Set remote description for '' @ userId @ '' (fallback)'')
                  (st\<lparr>pcHeap := (pcHeap st)[conn := conn']\<rparr>))
      else answerFallback rest sdp_text st)"

definition handleReceiveAnswer :: "answer_payload \<Rightarrow> state \<Rightarrow> state" where
  "handleReceiveAnswer payload st =
     (let st1 = log (''Received answer from '' @
                     (case callerId payload of
                        None \<Rightarrow> ''unknown''
                      | Some c \<Rightarrow> if c = [] then ''unknown'' else c)) st
      in case (case callerId payload of
                 None \<Rightarrow> None
               | Some c \<Rightarrow> map_of (peerConnections st1) c) of
           Some pc \<Rightarrow>
             (case setRemoteDescription (sdp payload) (pcHeap st1 ! pc) of
                None \<Rightarrow> st1
              | Some pc' \<Rightarrow>
                  log ''Set remote description for answer''
                    (st1\<lparr>pcHeap := (pcHeap st1)[pc := pc']\<rparr>))
         | None \<Rightarrow> answerFallback (peerConnections st1) (sdp payload) st1)"

text \<open>
  A map can only hold references to objects that exist, and holds a key once: the
  states of the component are those in which every address of \<open>peerConnections\<close> is an
  object of \<open>pcHeap\<close> and no key is bound twice.
\<close>

definition wf :: "state \<Rightarrow> bool" where
  "wf st \<longleftrightarrow>
     list_all (\<lambda>(userId, pc). pc < length (pcHeap st)) (peerConnections st) \<and>
     distinct (map fst (peerConnections st))"

section \<open>Data channel: sending\<close>

text \<open>\<^verbatim>\<open>dc.send(data)\<close> on an open channel.\<close>

definition send :: "frame \<Rightarrow> channel \<Rightarrow> channel" where
  "send data dc = dc\<lparr>outbox := outbox dc @ [data]\<rparr>"



text \<open>A \<^verbatim>\<open>File\<close>: its name and its bytes; \<^verbatim>\<open>file.size\<close> is their number.\<close>

record file_handle =
  file_name :: string
  file_bytes :: bytes

text \<open>The first loop of \<^verbatim>\<open>sendFile\<close>: the position of the first open channel.\<close>

fun findOpen :: "(string \<times> channel) list \<Rightarrow> nat option" where
  "findOpen [] = None"
| "findOpen ((userId, dc) # rest) =
     (if readyState dc = ChOpen then Some 0 else map_option Suc (findOpen rest))"

definition CHUNK_SIZE :: nat where
  "CHUNK_SIZE = 16 * 1024"

text \<open>\<^verbatim>\<open>buffer.slice(begin, end)\<close> for \<open>begin \<le> end\<close>.\<close>

definition slice :: "nat \<Rightarrow> nat \<Rightarrow> bytes \<Rightarrow> bytes" where
  "slice b e buffer = take (e - b) (drop b buffer)"

definition sendOn :: "nat \<Rightarrow> frame \<Rightarrow> state \<Rightarrow> state" where
  "sendOn openChannel data st =
     st\<lparr>dataChannels := (dataChannels st)
          [openChannel := (fst (dataChannels st ! openChannel),
                           send data (snd (dataChannels st ! openChannel)))]\<rparr>"

text \<open>\<^verbatim>\<open>for (let i = 0; i < buffer.byteLength; i += CHUNK_SIZE)\<close>\<close>

function sendChunks :: "nat \<Rightarrow> bytes \<Rightarrow> nat \<Rightarrow> state \<Rightarrow> state" where
  "sendChunks i buffer openChannel st =
     (if i < length buffer
      then sendChunks (i + CHUNK_SIZE) buffer openChannel
             (sendOn openChannel (Binary (slice i (i + CHUNK_SIZE) buffer)) st)
      else st)"
  by pat_completeness auto
termination
  by (relation "measure (\<lambda>(i, buffer, openChannel, st). length buffer - i)")
     (auto simp: CHUNK_SIZE_def)

declare sendChunks.simps [simp del]

definition sendFile :: "file_handle \<Rightarrow> state \<Rightarrow> state" where
  "sendFile f st =
     (case findOpen (dataChannels st) of
        None \<Rightarrow> st\<lparr>alerts := alerts st @ [''Connection not ready.'']\<rparr>
      | Some openChannel \<Rightarrow>
          (let meta = \<lparr>meta_name = file_name f, meta_size = length (file_bytes f)\<rparr>;
               st1 = sendOn openChannel (Text (Json (FileMeta meta))) st;
               st2 = st1\<lparr>messages := messages st1 @
                                      [''Me: Sending file '' @ file_name f @ ''...'']\<rparr>;
               st3 = sendChunks 0 (file_bytes f) openChannel st2
           in st3\<lparr>messages := messages st3 @ [''Me: File sent.'']\<rparr>))"

text \<open>The chunks that the loop of \<^verbatim>\<open>sendFile\<close> cuts, from offset \<open>i\<close> on.\<close>

function chunksFrom :: "nat \<Rightarrow> bytes \<Rightarrow> bytes list" where
  "chunksFrom i buffer =
     (if i < length buffer
      then slice i (i + CHUNK_SIZE) buffer # chunksFrom (i + CHUNK_SIZE) buffer
      else [])"
  by pat_completeness auto
termination
  by (relation "measure (\<lambda>(i, buffer). length buffer - i)") (auto simp: CHUNK_SIZE_def)

declare chunksFrom.simps [simp del]

section \<open>The initial state\<close>

text \<open>The initial values of the cells; the socket exists once the first effect has run.\<close>

definition init :: "string \<Rightarrow> state" where
  "init self =
     \<lparr>status = '''', messages = [], messageInput = '''',
      receivedFileMeta = None, receivedFileChunksRef = [], downloadLinks = [],
      connectedUsers = [], socket = Some \<lparr>sock_id = Some self, emitted = []\<rparr>,
      peerConnections = [], pcHeap = [], localStream = None, dataChannels = [],
      isSharing = False, isSharingRef = False, peersRef = [],
      console = [], alerts = []\<rparr>"

text \<open>A captured screen with one video track, for the examples.\<close>

definition display_stream :: stream where
  "display_stream =
     \<lparr>stream_id = ''s'', tracks = [\<lparr>track_id = ''t1'', kind = ''video''\<rparr>]\<rparr>"

section \<open>Receiving a file\<close>



lemma deliver_Nil [simp]: "deliver closure [] st = st"
  by (simp add: deliver_def)

lemma deliver_Cons [simp]:
  "deliver closure (ev # evs) st = deliver closure evs (handleDataChannelMessage closure ev st)"
  by (simp add: deliver_def)

text \<open>
  A closure of a render in which the cell was null reads null at every frame: it stores
  the metadata of a file-meta message in the cell and drops every chunk, so a channel
  that holds it never sets a download link, whatever arrives.
\<close>

lemma null_closure_keeps_links:
  "downloadLinks (handleDataChannelMessage None ev st) = downloadLinks st"
  by (cases "(None :: file_meta option, ev, st)" rule: handleDataChannelMessage.cases)
     simp_all

lemma null_closure_never_completes:
  "downloadLinks (deliver None evs st) = downloadLinks st"
  by (induction evs arbitrary: st) (simp_all add: null_closure_keeps_links)


text \<open>
  C10. A binary frame that arrives while \<^verbatim>\<open>receivedFileMeta\<close> is null is dropped: the
  handler returns the state it was given, so no chunk is stored, no message is logged
  and no download link is set. This holds for a handler whose closure holds what the
  cell holds, and for every handler created while the cell was null.
\<close>

theorem binary_without_meta_dropped:
  "receivedFileMeta st = None \<Longrightarrow>
   handleDataChannelMessage (receivedFileMeta st) (Binary data) st = st \<and>
   handleDataChannelMessage None (Binary data) st = st"
  by simp

theorem binary_without_meta_dropped_witness:
  "receivedFileMeta (init ''Self'') = None \<and>
   handleDataChannelMessage (receivedFileMeta (init ''Self'')) (Binary [1, 2, 3])
     (init ''Self'') = init ''Self''"
  using binary_without_meta_dropped [of "init ''Self''" "[1, 2, 3]"]
  by (simp add: init_def)

text \<open>
  C2 fails on the code. On a component that has received nothing, the handler of every
  channel holds a null \<^verbatim>\<open>receivedFileMeta\<close>. A file-meta message for 3 bytes followed by
  the chunks \<open>[1, 2]\<close> and \<open>[3]\<close> on such a channel stores the metadata in the cell and
  logs the line about it; both chunks are dropped at the test of line 184, which reads
  the closure and not the cell. No chunk is kept and no download link is ever set.
\<close>

theorem fresh_channel_transfer_never_completes:
  "receivedFileMeta (init ''Self'') = None \<and>
   deliver None
     [Text (Json (FileMeta \<lparr>meta_name = ''f'', meta_size = 3\<rparr>)), Binary [1, 2], Binary [3]]
     (init ''Self'') =
   (init ''Self'')
     \<lparr>receivedFileMeta := Some \<lparr>meta_name = ''f'', meta_size = 3\<rparr>,
      messages := [''System: Receiving file f (3 bytes)...'']\<rparr> \<and>
   downloadLinks (deliver None
     [Text (Json (FileMeta \<lparr>meta_name = ''f'', meta_size = 3\<rparr>)), Binary [1, 2], Binary [3]]
     (init ''Self'')) = []"
  by (simp add: init_def decimal.simps [of 3] digit_def)




text \<open>
  C5 fails on the code. A first channel, whose handler holds null, takes a file-meta
  message for the file \<open>f\<close> of 5 bytes; a second channel is bound in the render that
  follows, so its handler holds the metadata of \<open>f\<close>. On the second channel the chunk
  \<open>[1, 2]\<close> arrives: the transfer of \<open>f\<close> is in flight and incomplete. Then a file-meta
  message for the file \<open>g\<close> of 1 byte arrives: the chunk sequence is emptied, the cell
  holds the metadata of \<open>g\<close> and no link is set, as C5 says. But the handler goes on
  reading the metadata of \<open>f\<close>: the chunk \<open>[7]\<close>, which is all of \<open>g\<close>, completes nothing,
  and at the chunk \<open>[8, 9, 10, 11]\<close> the 5 bytes of \<open>f\<close> are reached and a download link
  named \<open>f\<close> is set, a completion for the discarded transfer.
\<close>

theorem stale_closure_completes_discarded_transfer:
  "receivedFileMeta
     (deliver None [Text (Json (FileMeta \<lparr>meta_name = ''f'', meta_size = 5\<rparr>))]
        (init ''Self'')) = Some \<lparr>meta_name = ''f'', meta_size = 5\<rparr> \<and>
   receivedFileChunksRef (deliver (Some \<lparr>meta_name = ''f'', meta_size = 5\<rparr>) [Binary [1, 2]]
     (deliver None [Text (Json (FileMeta \<lparr>meta_name = ''f'', meta_size = 5\<rparr>))]
        (init ''Self''))) = [[1, 2]] \<and>
   downloadLinks (deliver (Some \<lparr>meta_name = ''f'', meta_size = 5\<rparr>) [Binary [1, 2]]
     (deliver None [Text (Json (FileMeta \<lparr>meta_name = ''f'', meta_size = 5\<rparr>))]
        (init ''Self''))) = [] \<and>
   receivedFileChunksRef (deliver (Some \<lparr>meta_name = ''f'', meta_size = 5\<rparr>)
     [Binary [1, 2], Text (Json (FileMeta \<lparr>meta_name = ''g'', meta_size = 1\<rparr>))]
     (deliver None [Text (Json (FileMeta \<lparr>meta_name = ''f'', meta_size = 5\<rparr>))]
        (init ''Self''))) = [] \<and>
   receivedFileMeta (deliver (Some \<lparr>meta_name = ''f'', meta_size = 5\<rparr>)
     [Binary [1, 2], Text (Json (FileMeta \<lparr>meta_name = ''g'', meta_size = 1\<rparr>))]
     (deliver None [Text (Json (FileMeta \<lparr>meta_name = ''f'', meta_size = 5\<rparr>))]
        (init ''Self''))) = Some \<lparr>meta_name = ''g'', meta_size = 1\<rparr> \<and>
   downloadLinks (deliver (Some \<lparr>meta_name = ''f'', meta_size = 5\<rparr>)
     [Binary [1, 2], Text (Json (FileMeta \<lparr>meta_name = ''g'', meta_size = 1\<rparr>)), Binary [7]]
     (deliver None [Text (Json (FileMeta \<lparr>meta_name = ''f'', meta_size = 5\<rparr>))]
        (init ''Self''))) = [] \<and>
   downloadLinks (deliver (Some \<lparr>meta_name = ''f'', meta_size = 5\<rparr>)
     [Binary [1, 2], Text (Json (FileMeta \<lparr>meta_name = ''g'', meta_size = 1\<rparr>)), Binary [7],
      Binary [8, 9, 10, 11]]
     (deliver None [Text (Json (FileMeta \<lparr>meta_name = ''f'', meta_size = 5\<rparr>))]
        (init ''Self''))) = [(''f'', [7, 8, 9, 10, 11])]"
  by (simp add: init_def totalReceived_def)

section \<open>Connection requests\<close>

lemma log_fields [simp]:
  "pcHeap (log l st) = pcHeap st"
  "peerConnections (log l st) = peerConnections st"
  "console (log l st) = console st @ [l]"
  "localStream (log l st) = localStream st"
  "isSharingRef (log l st) = isSharingRef st"
  "peersRef (log l st) = peersRef st"
  "socket (log l st) = socket st"
  "dataChannels (log l st) = dataChannels st"
  by (simp_all add: log_def)

lemma createPeerConnection_known:
  "map_of (peerConnections st) t = Some a \<Longrightarrow>
   createPeerConnection t st = (a, log (''Reusing existing peer connection for '' @ t) st)"
  by (simp add: createPeerConnection_def)

lemma createPeerConnection_new:
  "map_of (peerConnections st) t = None \<Longrightarrow>
   createPeerConnection t st =
     (length (pcHeap st),
      (log (''Creating new peer connection for '' @ t) st)
        \<lparr>pcHeap := pcHeap st @ [new_RTCPeerConnection],
         peerConnections := AList.update t (length (pcHeap st)) (peerConnections st)\<rparr>)"
  by (simp add: createPeerConnection_def log_def Let_def)

lemma requests_known:
  "map_of (peerConnections st) t = Some a \<Longrightarrow>
   fst (requests (replicate n t) st) = replicate n a \<and>
   pcHeap (snd (requests (replicate n t) st)) = pcHeap st \<and>
   peerConnections (snd (requests (replicate n t) st)) = peerConnections st"
proof (induction n arbitrary: st)
  case 0
  then show ?case by simp
next
  case (Suc n)
  let ?st1 = "log (''Reusing existing peer connection for '' @ t) st"
  from Suc.prems have "map_of (peerConnections ?st1) t = Some a" by simp
  from Suc.IH [OF this] Suc.prems show ?case
    by (simp add: createPeerConnection_known case_prod_beta)
qed

lemma one_entry:
  "distinct (map fst xs) \<Longrightarrow> map_of xs k = Some v \<Longrightarrow>
   length (filter (\<lambda>(k', v'). k' = k) xs) = 1"
proof (induction xs)
  case Nil
  then show ?case by simp
next
  case (Cons x xs)
  obtain k' v' where x: "x = (k', v')" by (cases x)
  show ?case
  proof (cases "k' = k")
    case True
    with Cons.prems x have "k \<notin> fst ` set xs" by simp
    then have "filter (\<lambda>(k', v'). k' = k) xs = []"
      by (force simp: filter_empty_conv)
    with True x show ?thesis by simp
  next
    case False
    with Cons x show ?thesis by simp
  qed
qed

lemma set_update_subset: "set (AList.update k v al) \<subseteq> insert (k, v) (set al)"
  by (induction al) auto

lemma wf_createPeerConnection: "wf st \<Longrightarrow> wf (snd (createPeerConnection t st))"
proof (cases "map_of (peerConnections st) t")
  case None
  assume w: "wf st"
  have "\<And>u a. (u, a) \<in> set (AList.update t (length (pcHeap st)) (peerConnections st)) \<Longrightarrow>
          a < Suc (length (pcHeap st))"
  proof -
    fix u a
    assume "(u, a) \<in> set (AList.update t (length (pcHeap st)) (peerConnections st))"
    with set_update_subset [of t "length (pcHeap st)" "peerConnections st"]
    have "(u, a) = (t, length (pcHeap st)) \<or> (u, a) \<in> set (peerConnections st)" by auto
    with w show "a < Suc (length (pcHeap st))"
      by (auto simp: wf_def list_all_iff)
  qed
  with w None show ?thesis
    by (auto simp: wf_def createPeerConnection_new list_all_iff AList.distinct_update)
next
  case (Some a)
  assume "wf st"
  with Some show ?thesis
    by (simp add: wf_def createPeerConnection_known)
qed

text \<open>
  C1. Take any number of connection requests for one participant id, at least one, in a
  state of the component. If the id was not registered, exactly one
  \<^verbatim>\<open>RTCPeerConnection\<close> is constructed, by the first request; if it was, none is. Every
  request returns the same object, which is the one registered for the id, and the map
  holds exactly one entry for the id.
\<close>

theorem same_id_one_connection:
  assumes "wf st" and "0 < n"
  shows "case requests (replicate n targetUserId) st of
           (pcs, st') \<Rightarrow>
             pcHeap st' =
               (if map_of (peerConnections st) targetUserId = None
                then pcHeap st @ [new_RTCPeerConnection] else pcHeap st) \<and>
             (\<exists>pc. pcs = replicate n pc \<and> pc < length (pcHeap st') \<and>
                   map_of (peerConnections st') targetUserId = Some pc) \<and>
             length (filter (\<lambda>(userId, pc). userId = targetUserId) (peerConnections st')) = 1 \<and>
             wf st'"
proof -
  from assms(2) obtain k where n: "n = Suc k" by (cases n) auto
  obtain pc st1 where c: "createPeerConnection targetUserId st = (pc, st1)"
    by (cases "createPeerConnection targetUserId st")
  from wf_createPeerConnection [OF assms(1), of targetUserId] c have w1: "wf st1" by simp
  have reg: "map_of (peerConnections st1) targetUserId = Some pc"
    and heap: "pcHeap st1 =
       (if map_of (peerConnections st) targetUserId = None
        then pcHeap st @ [new_RTCPeerConnection] else pcHeap st)"
    using c
    by (cases "map_of (peerConnections st) targetUserId";
        auto simp: createPeerConnection_known createPeerConnection_new AList.update_conv')+
  from w1 reg have lt: "pc < length (pcHeap st1)"
    by (auto simp: wf_def list_all_iff dest: map_of_SomeD)
  from w1 reg have one: "length (filter (\<lambda>(userId, pc). userId = targetUserId)
      (peerConnections st1)) = 1"
    by (simp add: wf_def one_entry)
  obtain pcs st2 where r: "requests (replicate k targetUserId) st1 = (pcs, st2)"
    by (cases "requests (replicate k targetUserId) st1")
  from requests_known [OF reg, of k] r
  have k: "pcs = replicate k pc" "pcHeap st2 = pcHeap st1"
    "peerConnections st2 = peerConnections st1" by simp_all
  from w1 k have w2: "wf st2" by (simp add: wf_def)
  from n c r k heap reg lt one w2 show ?thesis
    by simp
qed

theorem same_id_one_connection_witness:
  "wf (init ''Self'') \<and> 0 < Suc (Suc (Suc 0)) \<and>
   fst (requests (replicate (Suc (Suc (Suc 0))) ''P1'') (init ''Self'')) = [0, 0, 0] \<and>
   pcHeap (snd (requests (replicate (Suc (Suc (Suc 0))) ''P1'') (init ''Self''))) =
     [new_RTCPeerConnection] \<and>
   peerConnections (snd (requests (replicate (Suc (Suc (Suc 0))) ''P1'') (init ''Self''))) =
     [(''P1'', 0)]"
  using same_id_one_connection [of "init ''Self''" "Suc (Suc (Suc 0))" "''P1''"]
  by (simp add: wf_def init_def createPeerConnection_def log_def Let_def)

section \<open>The answer fallback\<close>

lemma answerFallback_single:
  "filter (\<lambda>(userId, conn). signalingState (pcHeap st ! conn) = HaveLocalOffer) entries =
     [(userId, pc)] \<Longrightarrow>
   answerFallback entries sdp_text st =
     log (''Set remote description for '' @ userId @ '' (fallback)'')
       (st\<lparr>pcHeap := (pcHeap st)
          [pc := (pcHeap st ! pc)\<lparr>signalingState := Stable, remoteDescription := Some sdp_text\<rparr>]\<rparr>)"
proof (induction entries)
  case Nil
  then show ?case by simp
next
  case (Cons e entries)
  obtain u c where e: "e = (u, c)" by (cases e)
  show ?case
  proof (cases "signalingState (pcHeap st ! c) = HaveLocalOffer")
    case True
    with Cons.prems e have "u = userId" "c = pc" by simp_all
    with True e show ?thesis by (simp add: setRemoteDescription_def)
  next
    case False
    with Cons e show ?thesis by simp
  qed
qed

text \<open>
  C7. An answer arrives whose \<^verbatim>\<open>callerId\<close> is missing or names no tracked connection,
  and exactly one tracked connection, \<open>pc\<close>, is in \<^verbatim>\<open>have-local-offer\<close>. Then the answer
  becomes the remote description of \<open>pc\<close>, which goes to \<^verbatim>\<open>stable\<close>; every other
  connection object and the map are as before.
\<close>

theorem unresolved_answer_fallback:
  assumes "(case callerId payload of None \<Rightarrow> None
            | Some c \<Rightarrow> map_of (peerConnections st) c) = None"
    and "filter (\<lambda>(userId, conn). signalingState (pcHeap st ! conn) = HaveLocalOffer)
           (peerConnections st) = [(userId, pc)]"
  shows "pcHeap (handleReceiveAnswer payload st) =
           (pcHeap st)[pc := (pcHeap st ! pc)
              \<lparr>signalingState := Stable, remoteDescription := Some (sdp payload)\<rparr>] \<and>
         (pc < length (pcHeap st) \<longrightarrow>
            signalingState (pcHeap (handleReceiveAnswer payload st) ! pc) = Stable) \<and>
         (\<forall>other. other \<noteq> pc \<longrightarrow>
            pcHeap (handleReceiveAnswer payload st) ! other = pcHeap st ! other) \<and>
         peerConnections (handleReceiveAnswer payload st) = peerConnections st"
proof -
  let ?st1 = "log (''Received answer from '' @
                     (case callerId payload of
                        None \<Rightarrow> ''unknown''
                      | Some c \<Rightarrow> if c = [] then ''unknown'' else c)) st"
  from assms(2) have "filter (\<lambda>(userId, conn).
       signalingState (pcHeap ?st1 ! conn) = HaveLocalOffer) (peerConnections ?st1) =
     [(userId, pc)]" by simp
  note fb = answerFallback_single [OF this, of "sdp payload"]
  from assms(1) have r: "(case callerId payload of None \<Rightarrow> None
            | Some c \<Rightarrow> map_of (peerConnections ?st1) c) = None"
    by (cases "callerId payload") simp_all
  have "handleReceiveAnswer payload st =
          answerFallback (peerConnections ?st1) (sdp payload) ?st1"
    unfolding handleReceiveAnswer_def Let_def r by (simp only: option.case)
  with fb show ?thesis by simp
qed

theorem unresolved_answer_fallback_witness:
  "(case callerId \<lparr>callerId = None, sdp = ''answer''\<rparr> of None \<Rightarrow> None
    | Some c \<Rightarrow> map_of (peerConnections
        ((init ''Self'')\<lparr>peerConnections := [(''A'', 0), (''B'', 1)],
           pcHeap := [new_RTCPeerConnection,
                      new_RTCPeerConnection\<lparr>signalingState := HaveLocalOffer\<rparr>]\<rparr>)) c) = None \<and>
   filter (\<lambda>(userId, conn). signalingState (pcHeap
        ((init ''Self'')\<lparr>peerConnections := [(''A'', 0), (''B'', 1)],
           pcHeap := [new_RTCPeerConnection,
                      new_RTCPeerConnection\<lparr>signalingState := HaveLocalOffer\<rparr>]\<rparr>) ! conn) =
          HaveLocalOffer)
     (peerConnections
        ((init ''Self'')\<lparr>peerConnections := [(''A'', 0), (''B'', 1)],
           pcHeap := [new_RTCPeerConnection,
                      new_RTCPeerConnection\<lparr>signalingState := HaveLocalOffer\<rparr>]\<rparr>)) =
     [(''B'', 1)] \<and>
   pcHeap (handleReceiveAnswer \<lparr>callerId = None, sdp = ''answer''\<rparr>
        ((init ''Self'')\<lparr>peerConnections := [(''A'', 0), (''B'', 1)],
           pcHeap := [new_RTCPeerConnection,
                      new_RTCPeerConnection\<lparr>signalingState := HaveLocalOffer\<rparr>]\<rparr>)) =
     [new_RTCPeerConnection,
      new_RTCPeerConnection\<lparr>signalingState := Stable, remoteDescription := Some ''answer''\<rparr>]"
  using unresolved_answer_fallback
    [where payload = "\<lparr>callerId = None, sdp = ''answer''\<rparr>"
       and st = "(init ''Self'')\<lparr>peerConnections := [(''A'', 0), (''B'', 1)],
           pcHeap := [new_RTCPeerConnection,
                      new_RTCPeerConnection\<lparr>signalingState := HaveLocalOffer\<rparr>]\<rparr>"
       and userId = "''B''" and pc = 1]
  by (simp add: init_def new_RTCPeerConnection_def)

section \<open>Calls made by the controller\<close>

lemma control_log_start:
  "control (log (''Starting call to '' @ t) st) =
     (calls st @ [t], localStream st, isSharingRef st, peersRef st)"
  by (simp add: control_def calls_def)

lemma control_log_other:
  "take 17 l \<noteq> ''Starting call to '' \<Longrightarrow> control (log l st) = control st"
  by (simp add: control_def calls_def)

lemma control_createPeerConnection:
  "control (snd (createPeerConnection t st)) = control st"
proof (cases "map_of (peerConnections st) t")
  case None
  have "control ((log (''Creating new peer connection for '' @ t) st)
          \<lparr>pcHeap := h, peerConnections := p\<rparr>) =
        control (log (''Creating new peer connection for '' @ t) st)" for h p
    by (simp add: control_def calls_def)
  with None show ?thesis
    by (simp add: createPeerConnection_def Let_def control_log_other)
next
  case (Some a)
  then show ?thesis
    by (simp add: createPeerConnection_def control_log_other)
qed

lemma control_pcHeap [simp]: "control (st\<lparr>pcHeap := h\<rparr>) = control st"
  by (simp add: control_def calls_def)

lemma control_dataChannels [simp]: "control (st\<lparr>dataChannels := d\<rparr>) = control st"
  by (simp add: control_def calls_def)

lemma control_emit_offer [simp]: "control (emit_offer t st) = control st"
  by (simp add: emit_offer_def control_def calls_def split: option.split)

lemma control_addTracks:
  "(case addTracks ts pc st of Inl s \<Rightarrow> control s | Inr s \<Rightarrow> control s) = control st"
proof (induction ts arbitrary: st)
  case Nil
  then show ?case by simp
next
  case (Cons t ts)
  let ?st1 = "log (''Adding track '' @ kind t @ '' to peer connection'') st"
  have c1: "control ?st1 = control st"
    by (simp add: control_log_other)
  show ?case
  proof (cases "addTrack t (pcHeap ?st1 ! pc)")
    case None
    with c1 show ?thesis by (simp add: Let_def)
  next
    case (Some pc')
    from Cons.IH [of "?st1\<lparr>pcHeap := (pcHeap ?st1)[pc := pc']\<rparr>"] Some c1
    show ?thesis by (simp add: Let_def)
  qed
qed

lemma control_startCall:
  assumes "localStream st = Some ls"
  shows "control (startCall t st) =
           (calls st @ [t], localStream st, isSharingRef st, peersRef st)"
proof -
  let ?st1 = "log (''Starting call to '' @ t) st"
  obtain pc st2 where c: "createPeerConnection t ?st1 = (pc, st2)"
    by (cases "createPeerConnection t ?st1")
  from control_createPeerConnection [of t ?st1] c
  have c2: "control st2 = control ?st1" by simp
  have tail: "control
     (case createDataChannel (pcHeap st3 ! pc) of
        None \<Rightarrow> st3
      | Some dc \<Rightarrow>
          (let st4 = st3\<lparr>dataChannels := AList.update t dc (dataChannels st3)\<rparr>
           in case createOffer_setLocalDescription (pcHeap st4 ! pc) of
                None \<Rightarrow> st4
              | Some pc' \<Rightarrow>
                  emit_offer t (log (''Sending offer to '' @ t)
                    (st4\<lparr>pcHeap := (pcHeap st4)[pc := pc']\<rparr>)))) = control st3" for st3
    by (simp add: Let_def control_log_other split: option.split)
  have "control (startCall t st) = control st2"
  proof (cases "addTracks (tracks ls) pc st2")
    case (Inl st3)
    with control_addTracks [of "tracks ls" pc st2] assms c show ?thesis
      by (simp add: startCall_def Let_def)
  next
    case (Inr st3)
    with control_addTracks [of "tracks ls" pc st2] assms c tail [of st3] show ?thesis
      by (simp add: startCall_def Let_def)
  qed
  with c2 show ?thesis by (simp only: control_log_start)
qed

lemma control_handleUserConnected:
  assumes "isSharingRef st" and "localStream st = Some ls"
  shows "control (handleUserConnected userId st) =
           (calls st @ [userId], Some ls, True,
            if userId \<in> set (peersRef st) then peersRef st else peersRef st @ [userId])"
proof -
  let ?st2 = "if userId \<notin> set (peersRef st)
              then st\<lparr>status := ''User connected: '' @ userId,
                      peersRef := peersRef st @ [userId]\<rparr>
              else st\<lparr>status := ''User connected: '' @ userId\<rparr>"
  from assms have s: "isSharingRef ?st2" "localStream ?st2 = Some ls" by simp_all
  have h: "handleUserConnected userId st = startCall userId ?st2"
    using assms(1) by (simp add: handleUserConnected_def Let_def)
  from control_startCall [OF s(2), of userId] s show ?thesis
    unfolding h by (simp add: calls_def)
qed

text \<open>
  C3, amended. While the local side is sharing, every \<^verbatim>\<open>user-connected(P)\<close> event makes
  the controller call \<^verbatim>\<open>startCall(P)\<close> once, a duplicate event like the first one: after
  two events for the same id, two calls to it have been made. The guard against
  duplicates covers the peer list only, which holds the id once.
\<close>

theorem every_user_connected_calls:
  assumes "isSharingRef st" and "localStream st = Some ls"
  shows "calls (handleUserConnected userId st) = calls st @ [userId] \<and>
         calls (handleUserConnected userId (handleUserConnected userId st)) =
           calls st @ [userId, userId] \<and>
         peersRef (handleUserConnected userId (handleUserConnected userId st)) =
           (if userId \<in> set (peersRef st) then peersRef st else peersRef st @ [userId])"
proof -
  let ?st1 = "handleUserConnected userId st"
  note a = control_handleUserConnected [OF assms, of userId]
  then have s1: "isSharingRef ?st1" "localStream ?st1 = Some ls"
    by (simp_all add: control_def)
  note b = control_handleUserConnected [OF s1, of userId]
  from a b show ?thesis
    by (simp add: control_def)
qed

theorem every_user_connected_calls_witness:
  "isSharingRef (startScreenShare (Acquired display_stream) (init ''Self'')) \<and>
   localStream (startScreenShare (Acquired display_stream) (init ''Self'')) = Some display_stream \<and>
   calls (handleUserConnected ''P1'' (startScreenShare (Acquired display_stream) (init ''Self''))) =
     [''P1'']"
  using every_user_connected_calls
    [of "startScreenShare (Acquired display_stream) (init ''Self'')" display_stream "''P1''"]
  by (simp add: startScreenShare_def init_def log_def calls_def Let_def)

text \<open>
  C3 as stated fails. The component starts sharing with no peer; \<^verbatim>\<open>user-connected("P1")\<close>
  arrives twice; \<^verbatim>\<open>startCall("P1")\<close> has then been called twice.
\<close>

theorem duplicate_user_connected_counterexample:
  "calls (handleUserConnected ''P1'' (handleUserConnected ''P1''
      (startScreenShare (Acquired display_stream) (init ''Self'')))) = [''P1'', ''P1''] \<and>
   peersRef (handleUserConnected ''P1'' (handleUserConnected ''P1''
      (startScreenShare (Acquired display_stream) (init ''Self'')))) = [''P1'']"
  by (simp add: startScreenShare_def init_def log_def calls_def Let_def display_stream_def
        handleUserConnected_def startCall_def createPeerConnection_def addTrack_def
        createDataChannel_def createOffer_setLocalDescription_def emit_offer_def
        new_RTCPeerConnection_def)

lemma control_foldl_startCall:
  "localStream st = Some ls \<Longrightarrow>
   control (foldl (\<lambda>acc userId. startCall userId acc) st ps) =
     (calls st @ ps, localStream st, isSharingRef st, peersRef st)"
proof (induction ps arbitrary: st)
  case Nil
  then show ?case by (simp add: control_def)
next
  case (Cons p ps)
  note c = control_startCall [OF Cons.prems, of p]
  with Cons.prems have "localStream (startCall p st) = Some ls" by (simp add: control_def)
  from Cons.IH [OF this] c Cons.prems show ?case by (simp add: control_def)
qed

lemma calls_startScreenShare:
  assumes "\<not> isSharingRef st"
  shows "calls (startScreenShare (Acquired ms) st) = calls st @ peersRef st"
proof -
  let ?st3 = "(log (''Display media acquired: '' @ stream_id ms)
                ((log ''Requesting display media...'' st)
                   \<lparr>status := ''Requesting screen access...''\<rparr>))
              \<lparr>localStream := Some ms, isSharingRef := True, isSharing := True,
               status := (if 0 < length (peersRef st)
                              then ''Screen sharing started. Calling '' @
                                   decimal (length (peersRef st)) @ '' peers...''
                              else ''Screen sharing started. Waiting for peers to join...'')\<rparr>"
  have l: "localStream ?st3 = Some ms" by simp
  have c: "calls ?st3 = calls st" by (simp add: calls_def)
  have p: "peersRef ?st3 = peersRef st" by simp
  have "startScreenShare (Acquired ms) st =
          foldl (\<lambda>acc userId. startCall userId acc) ?st3 (peersRef st)"
    using assms by (simp add: startScreenShare_def Let_def)
  with control_foldl_startCall [OF l, of "peersRef st"] c show ?thesis
    by (simp add: control_def)
qed

text \<open>
  C8. An \<^verbatim>\<open>update-user-list\<close> broadcast replaces the peer list by the ids of its payload
  without the local id, whatever the list was before: after two broadcasts the list
  is made from the later payload alone, and the calls that \<^verbatim>\<open>startScreenShare\<close> then makes
  go to exactly these ids. With the payloads \<open>[A, B]\<close> and then \<open>[B]\<close> the list is \<open>[B]\<close>
  and the one call goes to \<open>B\<close> (the witness).
\<close>

theorem update_user_list_replaces:
  assumes "socket st = Some s" and "\<not> isSharingRef st"
  shows "peersRef (handleUpdateUserList later (handleUpdateUserList earlier st)) =
           map user_id (filter (\<lambda>u. Some (user_id u) \<noteq> sock_id s) later) \<and>
         calls (startScreenShare (Acquired ms)
                  (handleUpdateUserList later (handleUpdateUserList earlier st))) =
           calls st @ map user_id (filter (\<lambda>u. Some (user_id u) \<noteq> sock_id s) later)"
proof -
  let ?st2 = "handleUpdateUserList later (handleUpdateUserList earlier st)"
  from assms(1) have p: "peersRef ?st2 =
      map user_id (filter (\<lambda>u. Some (user_id u) \<noteq> sock_id s) later)"
    by (simp add: handleUpdateUserList_def Let_def)
  from assms have n: "\<not> isSharingRef ?st2"
    by (simp add: handleUpdateUserList_def Let_def)
  from assms(1) have c: "calls ?st2 = calls st"
    by (simp add: handleUpdateUserList_def Let_def calls_def)
  from calls_startScreenShare [OF n, of ms] p c show ?thesis by simp
qed

theorem update_user_list_replaces_witness:
  "socket (init ''Self'') = Some \<lparr>sock_id = Some ''Self'', emitted = []\<rparr> \<and>
   \<not> isSharingRef (init ''Self'') \<and>
   peersRef (handleUpdateUserList [\<lparr>user_id = ''B'', ip = ''10.0.0.2''\<rparr>]
      (handleUpdateUserList [\<lparr>user_id = ''A'', ip = ''10.0.0.1''\<rparr>,
                             \<lparr>user_id = ''B'', ip = ''10.0.0.2''\<rparr>] (init ''Self''))) = [''B''] \<and>
   ''A'' \<notin> set (peersRef (handleUpdateUserList [\<lparr>user_id = ''B'', ip = ''10.0.0.2''\<rparr>]
      (handleUpdateUserList [\<lparr>user_id = ''A'', ip = ''10.0.0.1''\<rparr>,
                             \<lparr>user_id = ''B'', ip = ''10.0.0.2''\<rparr>] (init ''Self'')))) \<and>
   calls (startScreenShare (Acquired display_stream)
      (handleUpdateUserList [\<lparr>user_id = ''B'', ip = ''10.0.0.2''\<rparr>]
        (handleUpdateUserList [\<lparr>user_id = ''A'', ip = ''10.0.0.1''\<rparr>,
                               \<lparr>user_id = ''B'', ip = ''10.0.0.2''\<rparr>] (init ''Self'')))) = [''B'']"
  using update_user_list_replaces
    [of "init ''Self''" "\<lparr>sock_id = Some ''Self'', emitted = []\<rparr>"
        "[\<lparr>user_id = ''B'', ip = ''10.0.0.2''\<rparr>]"
        "[\<lparr>user_id = ''A'', ip = ''10.0.0.1''\<rparr>, \<lparr>user_id = ''B'', ip = ''10.0.0.2''\<rparr>]" display_stream]
  by (simp add: init_def calls_def handleUpdateUserList_def)

section \<open>Sending chat and files\<close>







lemma findOpen_None:
  "findOpen chs = None \<longleftrightarrow> list_all (\<lambda>(userId, dc). readyState dc \<noteq> ChOpen) chs"
  by (induction chs rule: findOpen.induct) auto

lemma findOpen_Some:
  "findOpen chs = Some i \<Longrightarrow>
   i < length chs \<and> readyState (snd (chs ! i)) = ChOpen \<and>
   (\<forall>j<i. readyState (snd (chs ! j)) \<noteq> ChOpen)"
proof (induction chs arbitrary: i rule: findOpen.induct)
  case 1
  then show ?case by simp
next
  case (2 userId dc rest)
  show ?case
  proof (cases "readyState dc = ChOpen")
    case True
    with "2.prems" show ?thesis by simp
  next
    case False
    with "2.prems" obtain k where k: "findOpen rest = Some k" "i = Suc k" by auto
    from "2.IH" [OF False k(1)] False k(2) show ?thesis
      by (auto simp: less_Suc_eq_0_disj)
  qed
qed

lemma sendChunks_foldl:
  "sendChunks i buffer ch st =
     foldl (\<lambda>acc chunk. sendOn ch (Binary chunk) acc) st (chunksFrom i buffer)"
proof (induction i buffer ch st rule: sendChunks.induct)
  case (1 i buffer ch st)
  show ?case
  proof (cases "i < length buffer")
    case True
    with "1.IH" show ?thesis
      by (subst sendChunks.simps, subst chunksFrom.simps) simp
  next
    case False
    then show ?thesis
      by (subst sendChunks.simps, subst chunksFrom.simps) simp
  qed
qed

lemma foldl_sendOn:
  "ch < length (dataChannels st) \<Longrightarrow>
   foldl (\<lambda>acc data. sendOn ch data acc) st frames =
     st\<lparr>dataChannels := (dataChannels st)
          [ch := (fst (dataChannels st ! ch),
                  (snd (dataChannels st ! ch))
                    \<lparr>outbox := outbox (snd (dataChannels st ! ch)) @ frames\<rparr>)]\<rparr>"
proof (induction frames arbitrary: st)
  case Nil
  then show ?case by simp
next
  case (Cons d frames)
  let ?st1 = "sendOn ch d st"
  from Cons.prems have l: "ch < length (dataChannels ?st1)" by (simp add: sendOn_def)
  from Cons.IH [OF l] Cons.prems show ?case
    by (simp add: sendOn_def send_def)
qed

lemma foldl_map_frames:
  "foldl (\<lambda>acc chunk. sendOn ch (Binary chunk) acc) st cs =
   foldl (\<lambda>acc data. sendOn ch data acc) st (map Binary cs)"
  by (induction cs arbitrary: st) simp_all

lemma concat_chunksFrom: "concat (chunksFrom i buffer) = drop i buffer"
proof (induction i buffer rule: chunksFrom.induct)
  case (1 i buffer)
  show ?case
  proof (cases "i < length buffer")
    case True
    have "take CHUNK_SIZE (drop i buffer) @ drop (i + CHUNK_SIZE) buffer = drop i buffer"
      by (metis append_take_drop_id drop_drop add.commute)
    with True "1.IH" show ?thesis
      by (subst chunksFrom.simps) (simp add: slice_def)
  next
    case False
    then show ?thesis by (subst chunksFrom.simps) simp
  qed
qed

lemma chunksFrom_sizes:
  "(\<forall>c \<in> set (chunksFrom i buffer). 0 < length c \<and> length c \<le> CHUNK_SIZE) \<and>
   (\<forall>c \<in> set (butlast (chunksFrom i buffer)). length c = CHUNK_SIZE)"
proof (induction i buffer rule: chunksFrom.induct)
  case (1 i buffer)
  show ?case
  proof (cases "i < length buffer")
    case True
    note ih = "1.IH" [OF True]
    have pos: "0 < CHUNK_SIZE" by (simp add: CHUNK_SIZE_def)
    show ?thesis
    proof (cases "i + CHUNK_SIZE < length buffer")
      case more: True
      then have "chunksFrom (i + CHUNK_SIZE) buffer \<noteq> []"
        by (subst chunksFrom.simps) simp
      with True more ih pos show ?thesis
        by (subst chunksFrom.simps, subst (2) chunksFrom.simps) (auto simp: slice_def)
    next
      case last: False
      then have "chunksFrom (i + CHUNK_SIZE) buffer = []"
        by (subst chunksFrom.simps) simp
      with True pos show ?thesis
        by (subst chunksFrom.simps, subst (2) chunksFrom.simps) (auto simp: slice_def)
    qed
  next
    case False
    then show ?thesis by (subst chunksFrom.simps, subst (2) chunksFrom.simps) simp
  qed
qed

lemma chunksFrom_two:
  "chunksFrom 0 (replicate 16385 (0 :: 8 word)) = [replicate 16384 0, [0]]"
  by (simp add: chunksFrom.simps [of 0 "replicate 16385 0"]
        chunksFrom.simps [of 16384 "replicate 16385 0"]
        chunksFrom.simps [of 32768 "replicate 16385 0"] CHUNK_SIZE_def slice_def)

text \<open>
  C9. With no open channel \<^verbatim>\<open>sendFile\<close> only raises the alert \<^verbatim>\<open>Connection not ready.\<close>:
  no channel is handed anything and nothing else changes. Otherwise the first open
  channel of the map, and no other, is handed the metadata followed by the chunks;
  the chunks are the file's bytes in order, each of 16384 bytes but for the last,
  which has between 1 and 16384.
\<close>

theorem sendFile_first_open_only:
  "(case findOpen (dataChannels st) of
      None \<Rightarrow>
        list_all (\<lambda>(userId, dc). readyState dc \<noteq> ChOpen) (dataChannels st) \<and>
        sendFile f st = st\<lparr>alerts := alerts st @ [''Connection not ready.'']\<rparr>
    | Some i \<Rightarrow>
        i < length (dataChannels st) \<and>
        readyState (snd (dataChannels st ! i)) = ChOpen \<and>
        (\<forall>j<i. readyState (snd (dataChannels st ! j)) \<noteq> ChOpen) \<and>
        sendFile f st =
          st\<lparr>dataChannels := (dataChannels st)
               [i := (fst (dataChannels st ! i),
                      (snd (dataChannels st ! i))
                        \<lparr>outbox := outbox (snd (dataChannels st ! i)) @
                           Text (Json (FileMeta \<lparr>meta_name = file_name f,
                                                 meta_size = length (file_bytes f)\<rparr>)) #
                           map Binary (chunksFrom 0 (file_bytes f))\<rparr>)],
             messages := messages st @
               [''Me: Sending file '' @ file_name f @ ''...'', ''Me: File sent.'']\<rparr>) \<and>
   concat (chunksFrom 0 (file_bytes f)) = file_bytes f \<and>
   (\<forall>c \<in> set (chunksFrom 0 (file_bytes f)). 0 < length c \<and> length c \<le> 16384) \<and>
   (\<forall>c \<in> set (butlast (chunksFrom 0 (file_bytes f))). length c = 16384)"
proof -
  have chunks: "concat (chunksFrom 0 (file_bytes f)) = file_bytes f \<and>
   (\<forall>c \<in> set (chunksFrom 0 (file_bytes f)). 0 < length c \<and> length c \<le> 16384) \<and>
   (\<forall>c \<in> set (butlast (chunksFrom 0 (file_bytes f))). length c = 16384)"
    using chunksFrom_sizes [of 0 "file_bytes f"]
    by (simp add: concat_chunksFrom CHUNK_SIZE_def)
  show ?thesis
  proof (cases "findOpen (dataChannels st)")
    case None
    then have "list_all (\<lambda>(userId, dc). readyState dc \<noteq> ChOpen) (dataChannels st)"
      by (simp only: findOpen_None)
    with None chunks show ?thesis
      by (simp add: sendFile_def)
  next
    case (Some i)
    note o = findOpen_Some [OF Some]
    let ?meta = "Text (Json (FileMeta \<lparr>meta_name = file_name f,
                                        meta_size = length (file_bytes f)\<rparr>))"
    let ?st2 = "(sendOn i ?meta st)\<lparr>messages := messages st @
                  [''Me: Sending file '' @ file_name f @ ''...'']\<rparr>"
    from o have l2: "i < length (dataChannels ?st2)" by (simp add: sendOn_def)
    have "sendFile f st =
            (sendChunks 0 (file_bytes f) i ?st2)
              \<lparr>messages := messages (sendChunks 0 (file_bytes f) i ?st2) @ [''Me: File sent.'']\<rparr>"
      using Some by (simp add: sendFile_def Let_def sendOn_def)
    also have "sendChunks 0 (file_bytes f) i ?st2 =
        ?st2\<lparr>dataChannels := (dataChannels ?st2)
          [i := (fst (dataChannels ?st2 ! i),
                  (snd (dataChannels ?st2 ! i))
                    \<lparr>outbox := outbox (snd (dataChannels ?st2 ! i)) @
                       map Binary (chunksFrom 0 (file_bytes f))\<rparr>)]\<rparr>"
      by (simp only: sendChunks_foldl foldl_map_frames foldl_sendOn [OF l2])
    finally have "sendFile f st =
          st\<lparr>dataChannels := (dataChannels st)
               [i := (fst (dataChannels st ! i),
                      (snd (dataChannels st ! i))
                        \<lparr>outbox := outbox (snd (dataChannels st ! i)) @
                           ?meta # map Binary (chunksFrom 0 (file_bytes f))\<rparr>)],
             messages := messages st @
               [''Me: Sending file '' @ file_name f @ ''...'', ''Me: File sent.'']\<rparr>"
      using o by (simp add: sendOn_def send_def)
    with Some o chunks show ?thesis by simp
  qed
qed

theorem sendFile_first_open_only_witness:
  "findOpen (dataChannels ((init ''Self'')\<lparr>dataChannels :=
      [(''A'', \<lparr>readyState = ChConnecting, outbox = []\<rparr>),
       (''B'', \<lparr>readyState = ChOpen, outbox = []\<rparr>),
       (''C'', \<lparr>readyState = ChOpen, outbox = []\<rparr>)]\<rparr>)) = Some 1 \<and>
   dataChannels (sendFile \<lparr>file_name = ''f'', file_bytes = replicate 16385 0\<rparr>
     ((init ''Self'')\<lparr>dataChannels :=
      [(''A'', \<lparr>readyState = ChConnecting, outbox = []\<rparr>),
       (''B'', \<lparr>readyState = ChOpen, outbox = []\<rparr>),
       (''C'', \<lparr>readyState = ChOpen, outbox = []\<rparr>)]\<rparr>)) =
     [(''A'', \<lparr>readyState = ChConnecting, outbox = []\<rparr>),
      (''B'', \<lparr>readyState = ChOpen,
               outbox = [Text (Json (FileMeta \<lparr>meta_name = ''f'', meta_size = 16385\<rparr>)),
                         Binary (replicate 16384 0), Binary [0]]\<rparr>),
      (''C'', \<lparr>readyState = ChOpen, outbox = []\<rparr>)] \<and>
   findOpen (dataChannels (init ''Self'')) = None \<and>
   sendFile \<lparr>file_name = ''f'', file_bytes = replicate 16385 0\<rparr> (init ''Self'') =
     (init ''Self'')\<lparr>alerts := [''Connection not ready.'']\<rparr>"
  using sendFile_first_open_only
      [of "(init ''Self'')\<lparr>dataChannels :=
            [(''A'', \<lparr>readyState = ChConnecting, outbox = []\<rparr>),
             (''B'', \<lparr>readyState = ChOpen, outbox = []\<rparr>),
             (''C'', \<lparr>readyState = ChOpen, outbox = []\<rparr>)]\<rparr>"
          "\<lparr>file_name = ''f'', file_bytes = replicate 16385 0\<rparr>"]
    sendFile_first_open_only
      [of "init ''Self''" "\<lparr>file_name = ''f'', file_bytes = replicate 16385 0\<rparr>"]
  by (simp add: init_def chunksFrom_two)

end
